theory Spec2Isabelle
  imports Complex_Main "HOL-Library.AList"
begin

section \<open>Data model\<close>

text \<open>
  Exceptions of the Python sources, as values. \<open>KeyboardInterrupt\<close> and \<open>SystemExit\<close>
  derive from \<open>BaseException\<close> only; every other constructor is a subclass of
  \<open>Exception\<close>. \<open>RuntimeError\<close> stands for any failure of an external collaborator
  (chain client, override rule) that is an \<open>Exception\<close>.
\<close>

datatype exc =
    NotImplementedError string
  | ValueError string
  | AttributeError string
  | IndexError string
  | RuntimeError string
  | KeyboardInterrupt
  | SystemExit


fun is_Exception :: "exc \<Rightarrow> bool" where
  "is_Exception KeyboardInterrupt = False"
| "is_Exception SystemExit = False"
| "is_Exception _ = True"

text \<open>
  The configuration options read by the three modules (\<open>config.miner.blacklist.*\<close>,
  \<open>config.miner.*\<close>, \<open>config.wandb.on\<close>), flattened into one record. The two hotkey
  lists carry the prefix \<open>cfg_\<close> because \<open>blacklist\<close> is also the name of a function.
\<close>

record config =
  cfg_whitelist :: "string list"
  cfg_blacklist :: "string list"
  allow_non_registered :: bool
  force_validator_permit :: bool
  min_request_period :: int
  use_request_cache :: bool
  request_cache_block_span :: int
  wandb_on :: bool
  blocks_per_epoch :: int
  no_set_weights :: bool

record metagraph_t =
  hotkeys :: "string list"
  validator_permit :: "bool list"
  block :: int

text \<open>The request object \<open>Inference\<close>: its message list and \<open>synapse.dendrite.hotkey\<close>.\<close>

record synapse =
  messages :: "string list"
  dendrite_hotkey :: string

text \<open>
  The fields of \<open>Miner\<close> that admission reads and writes. A Python \<open>dict\<close> is an
  association list in insertion order; \<open>key in d\<close> is \<open>map_of d key \<noteq> None\<close>,
  \<open>d[key] = v\<close> is \<open>AList.update\<close> and \<open>del d[key]\<close> is \<open>AList.delete\<close>.
  Timestamps are the readings of \<open>time.time()\<close>, taken as reals.
\<close>

record miner =
  config :: config
  metagraph :: "metagraph_t option"
  request_cache :: "(string \<times> int) list"
  request_timestamps :: "(string \<times> real list) list"

text \<open>
  \<open>json.dumps\<close> and \<open>hashlib.sha256(...).hexdigest()\<close> belong to the Python standard
  library; they are parameters of the model.
\<close>

record stdlib =
  json_dumps :: "string list \<Rightarrow> string"
  sha256_hexdigest :: "string \<Rightarrow> string"

section \<open>Formatting of numbers in f-strings\<close>

definition digit_char :: "nat \<Rightarrow> char" where
  "digit_char d = ''0123456789'' ! d"

fun str_nat :: "nat \<Rightarrow> string" where
  "str_nat n = (if n < 10 then [digit_char n] else str_nat (n div 10) @ [digit_char (n mod 10)])"

declare str_nat.simps [simp del]

definition str_int :: "int \<Rightarrow> string" where
  "str_int i = (if i < 0 then CHR ''-'' # str_nat (nat (- i)) else str_nat (nat i))"

section \<open>blacklist.py\<close>

subsection \<open>The request cache\<close>

text \<open>Lines 30-31: the cache key of a request.\<close>

definition request_key :: "stdlib \<Rightarrow> synapse \<Rightarrow> string" where
  "request_key L syn = sha256_hexdigest L (json_dumps L (messages syn))"

text \<open>Lines 44-50: the keys whose recorded block plus the span lies before the current block.\<close>

definition keys_to_remove :: "int \<Rightarrow> int \<Rightarrow> (string \<times> int) list \<Rightarrow> string list" where
  "keys_to_remove block_span current_block cache =
     map fst (filter (\<lambda>(key, blk). blk + block_span < current_block) cache)"

text \<open>
  The body of the coroutine \<open>is_request_in_cache\<close>, run to completion under the lock
  (it contains no suspension point). Reading \<open>self.metagraph.block\<close> raises when the
  metagraph is \<open>None\<close>, before the cache is touched. Each key deleted in lines 52-53 was
  collected from the cache itself, so \<open>del\<close> finds it.
\<close>

definition is_request_in_cache :: "stdlib \<Rightarrow> miner \<Rightarrow> synapse \<Rightarrow> (exc + bool) \<times> miner" where
  "is_request_in_cache L self syn =
     (let key = request_key L syn in
      case metagraph self of
        None \<Rightarrow> (Inl (AttributeError ''block''), self)
      | Some mg \<Rightarrow>
          let current_block = block mg;
              hit = (map_of (request_cache self) key \<noteq> None);
              cache1 = (if hit then request_cache self
                        else AList.update key current_block (request_cache self));
              cache2 = fold AList.delete
                         (keys_to_remove (request_cache_block_span (config self)) current_block cache1)
                         cache1
          in (Inr hit, self\<lparr>request_cache := cache2\<rparr>))"

subsection \<open>The default rule chain\<close>

text \<open>\<open>list.index\<close>: the first position of an element, \<open>None\<close> where Python raises ValueError.\<close>

fun list_index :: "'a list \<Rightarrow> 'a \<Rightarrow> nat option" where
  "list_index [] y = None"
| "list_index (x # xs) y = (if x = y then Some 0 else map_option Suc (list_index xs y))"

text \<open>
  Lines 76-82. The result \<open>Inr None\<close> means that the rule did not match and evaluation
  goes on. \<open>self.metagraph.hotkeys\<close> raises on a missing metagraph, and indexing the
  permit array beyond its end raises.
\<close>

definition validator_permit_rule :: "miner \<Rightarrow> string \<Rightarrow> exc + (bool \<times> string) option" where
  "validator_permit_rule self hk =
     (if force_validator_permit (config self) then
        (case metagraph self of
           None \<Rightarrow> Inl (AttributeError ''hotkeys'')
         | Some mg \<Rightarrow>
             (case list_index (hotkeys mg) hk of
                Some uid \<Rightarrow>
                  if uid < length (validator_permit mg) then
                    (if \<not> validator_permit mg ! uid
                     then Inr (Some (True, ''validator permit required''))
                     else Inr None)
                  else Inl (IndexError ''validator_permit'')
              | None \<Rightarrow>
                  Inr (Some (True, ''validator permit required, but hotkey not registered''))))
      else Inr None)"

text \<open>Lines 85-91, with \<open>now\<close> the reading of \<open>time.time()\<close>.\<close>

definition request_period_rule :: "miner \<Rightarrow> string \<Rightarrow> real \<Rightarrow> exc + (bool \<times> string) option" where
  "request_period_rule self hk now =
     (case map_of (request_timestamps self) hk of
        None \<Rightarrow> Inr None
      | Some ts \<Rightarrow>
          (case ts of
             [] \<Rightarrow> Inl (IndexError ''request_timestamps'')
           | t0 # _ \<Rightarrow>
               let period = now - t0 in
               if period < of_int (min_request_period (config self) * 60) then
                 Inr (Some (True,
                   hk @ '' request frequency exceeded '' @ str_nat (length ts)
                      @ '' requests in '' @ str_int (min_request_period (config self))
                      @ '' minutes.''))
               else Inr None))"

definition default_blacklist :: "miner \<Rightarrow> synapse \<Rightarrow> real \<Rightarrow> exc + (bool \<times> string)" where
  "default_blacklist self syn now =
     (let hk = dendrite_hotkey syn in
      if hk \<in> set (cfg_whitelist (config self)) then Inr (False, ''whitelisted hotkey'')
      else if hk \<in> set (cfg_blacklist (config self)) then Inr (True, ''blacklisted hotkey'')
      else if \<not> allow_non_registered (config self)
              \<and> (case metagraph self of None \<Rightarrow> False | Some mg \<Rightarrow> hk \<notin> set (hotkeys mg))
           then Inr (True, ''hotkey not registered'')
      else
        (case validator_permit_rule self hk of
           Inl e \<Rightarrow> Inl e
         | Inr (Some d) \<Rightarrow> Inr d
         | Inr None \<Rightarrow>
             (case request_period_rule self hk now of
                Inl e \<Rightarrow> Inl e
              | Inr (Some d) \<Rightarrow> Inr d
              | Inr None \<Rightarrow> Inr (False, ''passed blacklist''))))"

subsection \<open>The wrapper around an override rule\<close>



text \<open>The dictionary passed to \<open>wandb.log\<close> in lines 133-139.\<close>

record wandb_record =
  blacklisted :: real
  return_message :: string
  hotkey :: string



section \<open>miner.py\<close>


text \<open>
  \<open>is_request_in_cache\<close> is declared \<open>async def\<close>: calling it does not run its body, the
  call returns a coroutine object holding the body, which \<open>await\<close> would run. A coroutine
  object defines neither \<open>__bool__\<close> nor \<open>__len__\<close>, so its truth value is \<open>True\<close>.
\<close>

datatype 'r coroutine = Coroutine "miner \<Rightarrow> 'r \<times> miner"

definition call_is_request_in_cache :: "stdlib \<Rightarrow> synapse \<Rightarrow> (exc + bool) coroutine" where
  "call_is_request_in_cache L syn = Coroutine (\<lambda>self. is_request_in_cache L self syn)"

fun await :: "'r coroutine \<Rightarrow> miner \<Rightarrow> 'r \<times> miner" where
  "await (Coroutine body) self = body self"

fun truth_value :: "'r coroutine \<Rightarrow> bool" where
  "truth_value (Coroutine body) = True"

text \<open>
  \<open>Miner._predict\<close>, lines 192-197. The abstract method \<open>predict\<close> of the subclass is a
  parameter. The condition of line 193 tests the object returned by the call, which is
  not awaited.
\<close>

definition Miner_predict :: "stdlib \<Rightarrow> (miner \<Rightarrow> synapse \<Rightarrow> (exc + 'r) \<times> miner)
    \<Rightarrow> miner \<Rightarrow> synapse \<Rightarrow> (exc + 'r) \<times> miner" where
  "Miner_predict L predict self syn =
     (if use_request_cache (config self) then
        (if truth_value (call_is_request_in_cache L syn) then
           (Inl (ValueError (''Blacklisted: Request sent recently in last ''
                   @ str_int (request_cache_block_span (config self)) @ '' blocks.'')), self)
         else predict self syn)
      else predict self syn)"

section \<open>run.py\<close>

text \<open>
  The external collaborators of the control loop. Each call is answered by the world as a
  function of the number of external calls made so far (\<open>tick\<close>), with a value or an
  exception; \<open>should_exit\<close> is the flag as the loop reads it at that moment (another thread
  sets it). An interrupt is an answer \<open>Inl KeyboardInterrupt\<close>.
\<close>

record world =
  is_hotkey_registered :: "nat \<Rightarrow> exc + bool"
  get_current_block :: "nat \<Rightarrow> exc + int"
  sleep :: "nat \<Rightarrow> exc + unit"
  should_exit :: "nat \<Rightarrow> bool"
  fetch_metagraph :: "nat \<Rightarrow> exc + string"
  wandb_log :: "nat \<Rightarrow> exc + unit"
  set_weights :: "nat \<Rightarrow> exc + unit"

datatype log_entry = Info string | Success string | Error string | ErrorTrace exc

record run_state =
  tick :: nat
  last_epoch_block :: int
  step :: nat
  axon_running :: bool
  logged :: "log_entry list"

definition call_ext :: "(nat \<Rightarrow> exc + 'a) \<Rightarrow> run_state \<Rightarrow> (exc + 'a) \<times> run_state" where
  "call_ext f s = (f (tick s), s\<lparr>tick := Suc (tick s)\<rparr>)"

text \<open>
  Lines 85-95, the wait for the next epoch; the result is the last \<open>current_block\<close>.
  The loop need not end, so it runs on fuel and \<open>None\<close> is "still waiting".
\<close>

fun wait_for_epoch :: "nat \<Rightarrow> world \<Rightarrow> config \<Rightarrow> int \<Rightarrow> run_state
    \<Rightarrow> ((exc + int) \<times> run_state) option" where
  "wait_for_epoch 0 W cfg current_block s = None"
| "wait_for_epoch (Suc fuel) W cfg current_block s =
     (if current_block - last_epoch_block s < blocks_per_epoch cfg then
        (case call_ext (sleep W) s of
           (Inl e, s1) \<Rightarrow> Some (Inl e, s1)
         | (Inr _, s1) \<Rightarrow>
             (case call_ext (get_current_block W) s1 of
                (Inl e, s2) \<Rightarrow> Some (Inl e, s2)
              | (Inr cb, s2) \<Rightarrow>
                  if should_exit W (tick s2) then Some (Inr cb, s2)
                  else wait_for_epoch fuel W cfg cb s2))
      else Some (Inr current_block, s))"

text \<open>Lines 98-128, the work at the epoch boundary, ending with \<open>step += 1\<close>.\<close>

definition epoch_work :: "world \<Rightarrow> config \<Rightarrow> run_state \<Rightarrow> (exc + unit) \<times> run_state" where
  "epoch_work W cfg s =
     (case call_ext (get_current_block W) s of
        (Inl e, s1) \<Rightarrow> (Inl e, s1)
      | (Inr b, s1) \<Rightarrow>
          (case call_ext (fetch_metagraph W) (s1\<lparr>last_epoch_block := b\<rparr>) of
             (Inl e, s2) \<Rightarrow> (Inl e, s2)
           | (Inr line, s2) \<Rightarrow>
               let s3 = s2\<lparr>logged := logged s2
                          @ [Info (''Step:'' @ str_nat (step s2) @ '' | '' @ line)]\<rparr> in
               (case (if wandb_on cfg then call_ext (wandb_log W) s3 else (Inr (), s3)) of
                  (Inl e, s4) \<Rightarrow> (Inl e, s4)
                | (Inr _, s4) \<Rightarrow>
                    (case (if \<not> no_set_weights cfg then call_ext (set_weights W) s4
                           else (Inr (), s4)) of
                       (Inl e, s5) \<Rightarrow> (Inl e, s5)
                     | (Inr _, s5) \<Rightarrow> (Inr (), s5\<lparr>step := step s5 + 1\<rparr>)))))"

text \<open>Lines 80-128, the loop \<open>while not self.should_exit\<close>, on fuel.\<close>

fun main_loop :: "nat \<Rightarrow> world \<Rightarrow> config \<Rightarrow> run_state \<Rightarrow> ((exc + unit) \<times> run_state) option" where
  "main_loop 0 W cfg s = None"
| "main_loop (Suc fuel) W cfg s =
     (if should_exit W (tick s) then Some (Inr (), s)
      else
        (case call_ext (get_current_block W) s of
           (Inl e, s1) \<Rightarrow> Some (Inl e, s1)
         | (Inr cb, s1) \<Rightarrow>
             (case wait_for_epoch fuel W cfg cb s1 of
                None \<Rightarrow> None
              | Some (Inl e, s2) \<Rightarrow> Some (Inl e, s2)
              | Some (Inr _, s2) \<Rightarrow>
                  (case epoch_work W cfg s2 of
                     (Inl e, s3) \<Rightarrow> Some (Inl e, s3)
                   | (Inr _, s3) \<Rightarrow> main_loop fuel W cfg s3))))"

text \<open>
  How a call of \<open>run\<close> ends: it returns, or an exception leaves it (\<open>exit()\<close> raises
  \<open>SystemExit\<close>).
\<close>

datatype ending = Returned | Propagated exc

text \<open>Lines 131-138: the two handlers around the loop.\<close>

definition run_handlers :: "(exc + unit) \<times> run_state \<Rightarrow> ending \<times> run_state" where
  "run_handlers r =
     (case r of
        (Inr _, s) \<Rightarrow> (Returned, s)
      | (Inl e, s) \<Rightarrow>
          if e = KeyboardInterrupt then
            (Propagated SystemExit,
             s\<lparr>axon_running := False,
               logged := logged s @ [Success ''Miner killed by keyboard interrupt.'']\<rparr>)
          else if is_Exception e then (Returned, s\<lparr>logged := logged s @ [ErrorTrace e]\<rparr>)
          else (Propagated e, s))"

text \<open>
  \<open>run\<close>, lines 51-138. Before the \<open>try\<close> statement nothing is caught. The state at the
  start has no axon running, no step and an empty log.
\<close>

definition run :: "nat \<Rightarrow> world \<Rightarrow> config \<Rightarrow> (ending \<times> run_state) option" where
  "run fuel W cfg =
     (let s0 = \<lparr>tick = 0, last_epoch_block = 0, step = 0, axon_running = False, logged = []\<rparr> in
      case call_ext (is_hotkey_registered W) s0 of
        (Inl e, s1) \<Rightarrow> Some (Propagated e, s1)
      | (Inr registered, s1) \<Rightarrow>
          if \<not> registered then
            Some (Propagated SystemExit, s1\<lparr>logged := logged s1 @ [Error ''not registered'']\<rparr>)
          else
            (case call_ext (get_current_block W) (s1\<lparr>axon_running := True\<rparr>) of
               (Inl e, s2) \<Rightarrow> Some (Propagated e, s2)
             | (Inr b, s2) \<Rightarrow>
                 map_option run_handlers
                   (main_loop fuel W cfg (s2\<lparr>last_epoch_block := b, step := 0\<rparr>))))"

section \<open>Notions of the specification\<close>

text \<open>The request cache after a call of \<open>is_request_in_cache\<close>.\<close>

abbreviation cache_after :: "stdlib \<Rightarrow> miner \<Rightarrow> synapse \<Rightarrow> (string \<times> int) list" where
  "cache_after L self syn \<equiv> request_cache (snd (is_request_in_cache L self syn))"

text \<open>
  The rule chain as the specification documents it (section 4.2): an ordered list of
  guards with their decisions, of which the first that holds determines the outcome.
  It is compared below with \<open>default_blacklist\<close>, which is the translation of the code.
\<close>

fun first_match :: "(bool \<times> 'd) list \<Rightarrow> 'd option" where
  "first_match [] = None"
| "first_match ((guard, decision) # rules) = (if guard then Some decision else first_match rules)"

definition documented_rules :: "miner \<Rightarrow> metagraph_t \<Rightarrow> synapse \<Rightarrow> real \<Rightarrow> (bool \<times> bool \<times> string) list" where
  "documented_rules self mg syn now =
     (let hk = dendrite_hotkey syn; cfg = config self in
      [(hk \<in> set (cfg_whitelist cfg), (False, ''whitelisted hotkey'')),
       (hk \<in> set (cfg_blacklist cfg), (True, ''blacklisted hotkey'')),
       (\<not> allow_non_registered cfg \<and> hk \<notin> set (hotkeys mg), (True, ''hotkey not registered'')),
       (force_validator_permit cfg \<and> hk \<in> set (hotkeys mg)
          \<and> (case list_index (hotkeys mg) hk of
                Some uid \<Rightarrow> \<not> validator_permit mg ! uid | None \<Rightarrow> False),
        (True, ''validator permit required'')),
       (force_validator_permit cfg \<and> hk \<notin> set (hotkeys mg),
        (True, ''validator permit required, but hotkey not registered'')),
       (case map_of (request_timestamps self) hk of
          Some (t0 # ts) \<Rightarrow> now - t0 < of_int (min_request_period cfg * 60)
        | _ \<Rightarrow> False,
        (True, hk @ '' request frequency exceeded ''
                  @ str_nat (length (the (map_of (request_timestamps self) hk)))
                  @ '' requests in '' @ str_int (min_request_period cfg) @ '' minutes.'')),
       (True, (False, ''passed blacklist''))])"


section \<open>Inputs for evaluation\<close>

text \<open>
  Concrete inputs on which the theorems below are evaluated. The two library functions
  are parameters; any pair of functions will do, and this one is easy to follow.
\<close>

definition toy_stdlib :: stdlib where
  "toy_stdlib = \<lparr>json_dumps = concat, sha256_hexdigest = rev\<rparr>"

definition cfg0 :: config where
  "cfg0 = \<lparr>cfg_whitelist = [''alice''], cfg_blacklist = [''alice'', ''mallory''],
     allow_non_registered = False, force_validator_permit = True, min_request_period = 1,
     use_request_cache = True, request_cache_block_span = 10, wandb_on = False,
     blocks_per_epoch = 100, no_set_weights = False\<rparr>"

definition mg0 :: metagraph_t where
  "mg0 = \<lparr>hotkeys = [''alice'', ''bob'', ''carol''], validator_permit = [True, True, False],
           block = 120\<rparr>"

definition miner0 :: miner where
  "miner0 = \<lparr>config = cfg0, metagraph = Some mg0,
     request_cache = [(''olleh'', 100), (''eyb'', 115)],
     request_timestamps = [(''bob'', [1000, 1020])]\<rparr>"

definition syn_hello :: synapse where
  "syn_hello = \<lparr>messages = [''he'', ''llo''], dendrite_hotkey = ''bob''\<rparr>"

definition syn_bye :: synapse where
  "syn_bye = \<lparr>messages = [''bye''], dendrite_hotkey = ''bob''\<rparr>"

definition syn_new :: synapse where
  "syn_new = \<lparr>messages = [''new''], dendrite_hotkey = ''dave''\<rparr>"

definition syn_hello_carol :: synapse where
  "syn_hello_carol = \<lparr>messages = [''he'', ''llo''], dendrite_hotkey = ''carol''\<rparr>"

definition syn_alice :: synapse where
  "syn_alice = \<lparr>messages = [''hi''], dendrite_hotkey = ''alice''\<rparr>"



definition miner_fresh :: miner where
  "miner_fresh = miner0\<lparr>request_cache := []\<rparr>"

definition predict_echo :: "miner \<Rightarrow> synapse \<Rightarrow> (exc + synapse) \<times> miner" where
  "predict_echo self synapse = (Inr synapse, self)"

text \<open>
  Worlds for the control loop. In \<open>world_steady\<close> the chain advances by 1000 blocks per
  call and nothing fails. In \<open>world_rpc_failure\<close> the seventh external call, the block
  query that opens the second epoch, fails. In \<open>world_flag\<close> the chain stands still and the
  supervisor sets \<open>should_exit\<close> during the wait. In \<open>world_interrupt\<close> the wait is
  interrupted.
\<close>

definition world_steady :: world where
  "world_steady =
     \<lparr>is_hotkey_registered = (\<lambda>t. Inr True),
      get_current_block = (\<lambda>t. Inr (int t * 1000)),
      sleep = (\<lambda>t. Inr ()),
      should_exit = (\<lambda>t. False),
      fetch_metagraph = (\<lambda>t. Inr ''Block''),
      wandb_log = (\<lambda>t. Inr ()),
      set_weights = (\<lambda>t. Inr ())\<rparr>"

definition world_rpc_failure :: world where
  "world_rpc_failure =
     world_steady\<lparr>get_current_block :=
        (\<lambda>t. if t = 6 then Inl (RuntimeError ''rpc timeout'') else Inr (int t * 1000))\<rparr>"

definition world_flag :: world where
  "world_flag =
     world_steady\<lparr>get_current_block := (\<lambda>t. Inr 1000), should_exit := (\<lambda>t. 5 \<le> t)\<rparr>"

definition world_interrupt :: world where
  "world_interrupt =
     world_steady\<lparr>get_current_block := (\<lambda>t. Inr 1000),
                  sleep := (\<lambda>t. Inl KeyboardInterrupt)\<rparr>"

section \<open>The request cache: check, record and sweep\<close>

lemma map_of_fold_delete:
  "map_of (fold AList.delete ks al) k = (if k \<in> set ks then None else map_of al k)"
  by (induction ks arbitrary: al) (auto simp: delete_conv')

lemma distinct_fold_delete:
  "distinct (map fst al) \<Longrightarrow> distinct (map fst (fold AList.delete ks al))"
  by (induction ks arbitrary: al) (auto simp: distinct_delete)

lemma keys_to_remove_iff:
  "k \<in> set (keys_to_remove sp cur al) \<longleftrightarrow> (\<exists>b. (k, b) \<in> set al \<and> b + sp < cur)"
  by (auto simp: keys_to_remove_def image_iff)

lemma keys_to_remove_distinct:
  "distinct (map fst al) \<Longrightarrow>
     k \<in> set (keys_to_remove sp cur al) \<longleftrightarrow> (\<exists>b. map_of al k = Some b \<and> b + sp < cur)"
  by (simp add: keys_to_remove_iff)

lemma sweep_lookup:
  assumes "distinct (map fst al)"
  shows "map_of (fold AList.delete (keys_to_remove sp cur al) al) k =
     (case map_of al k of None \<Rightarrow> None | Some b \<Rightarrow> if b + sp < cur then None else Some b)"
proof (cases "map_of al k")
  case None
  then show ?thesis by (simp add: map_of_fold_delete)
next
  case (Some b)
  then show ?thesis using assms
    by (simp add: map_of_fold_delete keys_to_remove_distinct)
qed

lemma sweep_expired:
  "map_of al k = Some b \<Longrightarrow> b + sp < cur \<Longrightarrow>
   map_of (fold AList.delete (keys_to_remove sp cur al) al) k = None"
  by (auto simp: map_of_fold_delete keys_to_remove_iff dest: map_of_SomeD)

lemma is_request_in_cache_hit:
  "metagraph self = Some mg \<Longrightarrow> map_of (request_cache self) (request_key L syn) \<noteq> None \<Longrightarrow>
   is_request_in_cache L self syn =
     (Inr True,
      self\<lparr>request_cache := fold AList.delete
         (keys_to_remove (request_cache_block_span (config self)) (block mg) (request_cache self))
         (request_cache self)\<rparr>)"
  by (simp add: is_request_in_cache_def Let_def)

lemma is_request_in_cache_miss:
  "metagraph self = Some mg \<Longrightarrow> map_of (request_cache self) (request_key L syn) = None \<Longrightarrow>
   is_request_in_cache L self syn =
     (Inr False,
      self\<lparr>request_cache := fold AList.delete
         (keys_to_remove (request_cache_block_span (config self)) (block mg)
            (AList.update (request_key L syn) (block mg) (request_cache self)))
         (AList.update (request_key L syn) (block mg) (request_cache self))\<rparr>)"
  by (simp add: is_request_in_cache_def Let_def)

lemma is_request_in_cache_None:
  "metagraph self = None \<Longrightarrow>
   is_request_in_cache L self syn = (Inl (AttributeError ''block''), self)"
  by (simp add: is_request_in_cache_def)

lemma cache_after_lookup:
  assumes mg: "metagraph self = Some mg"
    and dict: "distinct (map fst (request_cache self))"
  shows "map_of (cache_after L self syn) k =
     (case (if k = request_key L syn \<and> map_of (request_cache self) k = None
            then Some (block mg) else map_of (request_cache self) k) of
        None \<Rightarrow> None
      | Some b \<Rightarrow> if b + request_cache_block_span (config self) < block mg then None else Some b)"
proof (cases "map_of (request_cache self) (request_key L syn) = None")
  case True
  have d: "distinct (map fst (AList.update (request_key L syn) (block mg) (request_cache self)))"
    using dict by (simp add: distinct_update)
  show ?thesis using True
    by (simp add: is_request_in_cache_miss [OF mg True] sweep_lookup [OF d] update_conv')
next
  case False
  then show ?thesis
    by (auto simp add: is_request_in_cache_hit [OF mg False] sweep_lookup [OF dict])
qed

text \<open>
  Claim C6. Where the metagraph is present and the cache is a dictionary (no key twice),
  a call of \<open>is_request_in_cache\<close> returns true exactly when the key of the request is
  already in the cache. The cache after the call is the cache before it, with the
  key recorded at the current block if it was absent, and without exactly the entries
  whose block plus \<open>request_cache_block_span\<close> is less than the current block. Hence an
  entry recorded at block \<open>B\<close> survives every call at a block up to \<open>B + span\<close> and is
  gone after a call at a later block.
\<close>

theorem is_request_in_cache_check_and_record:
  assumes mg: "metagraph self = Some mg"
    and dict: "distinct (map fst (request_cache self))"
  shows "fst (is_request_in_cache L self syn)
           = Inr (map_of (request_cache self) (request_key L syn) \<noteq> None)
       \<and> (\<forall>k. map_of (cache_after L self syn) k =
            (case (if k = request_key L syn \<and> map_of (request_cache self) k = None
                   then Some (block mg) else map_of (request_cache self) k) of
               None \<Rightarrow> None
             | Some b \<Rightarrow> if b + request_cache_block_span (config self) < block mg
                          then None else Some b))
       \<and> (\<forall>k B. map_of (request_cache self) k = Some B
                  \<and> block mg \<le> B + request_cache_block_span (config self)
              \<longrightarrow> map_of (cache_after L self syn) k = Some B)
       \<and> (\<forall>k B. map_of (request_cache self) k = Some B
                  \<and> B + request_cache_block_span (config self) < block mg
              \<longrightarrow> map_of (cache_after L self syn) k = None)"
proof (intro conjI allI impI)
  show "fst (is_request_in_cache L self syn)
           = Inr (map_of (request_cache self) (request_key L syn) \<noteq> None)"
    by (cases "map_of (request_cache self) (request_key L syn) = None")
       (simp_all add: is_request_in_cache_hit [OF mg] is_request_in_cache_miss [OF mg])
next
  fix k
  show "map_of (cache_after L self syn) k =
            (case (if k = request_key L syn \<and> map_of (request_cache self) k = None
                   then Some (block mg) else map_of (request_cache self) k) of
               None \<Rightarrow> None
             | Some b \<Rightarrow> if b + request_cache_block_span (config self) < block mg
                          then None else Some b)"
    by (rule cache_after_lookup [OF mg dict])
next
  fix k B
  assume "map_of (request_cache self) k = Some B
                  \<and> block mg \<le> B + request_cache_block_span (config self)"
  then show "map_of (cache_after L self syn) k = Some B"
    by (simp add: cache_after_lookup [OF mg dict])
next
  fix k B
  assume "map_of (request_cache self) k = Some B
                  \<and> B + request_cache_block_span (config self) < block mg"
  then show "map_of (cache_after L self syn) k = None"
    by (simp add: cache_after_lookup [OF mg dict])
qed

theorem is_request_in_cache_check_and_record_witness:
  "metagraph miner0 = Some mg0 \<and> distinct (map fst (request_cache miner0))
   \<and> fst (is_request_in_cache toy_stdlib miner0 syn_new) = Inr False
   \<and> map_of (cache_after toy_stdlib miner0 syn_new) ''wen'' = Some 120
   \<and> map_of (cache_after toy_stdlib miner0 syn_new) ''eyb'' = Some 115
   \<and> map_of (cache_after toy_stdlib miner0 syn_new) ''olleh'' = None"
proof -
  have h1: "metagraph miner0 = Some mg0" by (simp add: miner0_def)
  have h2: "distinct (map fst (request_cache miner0))" by (simp add: miner0_def)
  have k: "request_key toy_stdlib syn_new = ''wen''"
    by (simp add: request_key_def toy_stdlib_def syn_new_def)
  show ?thesis
    using is_request_in_cache_check_and_record [OF h1 h2, of toy_stdlib syn_new] h1 h2
    by (simp add: k miner0_def mg0_def cfg0_def)
qed

section \<open>The cache-entry invariant\<close>

text \<open>
  Claim C8. Every call of \<open>is_request_in_cache\<close> on a cache that holds no key twice
  leaves a cache that holds no key twice. An entry present before the call keeps its block
  or is removed: a duplicate hit never overwrites the recorded block. An entry present after
  the call is an unchanged old entry, or the entry of a key that was absent, recorded at
  the current block.
\<close>

theorem is_request_in_cache_keeps_first_block:
  assumes dict: "distinct (map fst (request_cache self))"
  shows "distinct (map fst (cache_after L self syn))
       \<and> (\<forall>k B. map_of (request_cache self) k = Some B
              \<longrightarrow> map_of (cache_after L self syn) k = Some B
                \<or> map_of (cache_after L self syn) k = None)
       \<and> (\<forall>k B. map_of (cache_after L self syn) k = Some B
              \<longrightarrow> map_of (request_cache self) k = Some B
                \<or> (k = request_key L syn \<and> map_of (request_cache self) k = None
                    \<and> map_option block (metagraph self) = Some B))"
proof (cases "metagraph self")
  case None
  then show ?thesis using dict by (simp add: is_request_in_cache_None)
next
  case (Some mg)
  have d: "distinct (map fst (cache_after L self syn))"
  proof (cases "map_of (request_cache self) (request_key L syn) = None")
    case True
    then show ?thesis using dict
      by (simp add: is_request_in_cache_miss [OF Some True] distinct_fold_delete distinct_update)
  next
    case False
    then show ?thesis using dict
      by (simp add: is_request_in_cache_hit [OF Some False] distinct_fold_delete)
  qed
  have keep: "map_of (cache_after L self syn) k = Some B \<or> map_of (cache_after L self syn) k = None"
    if "map_of (request_cache self) k = Some B" for k B
    using that by (simp add: cache_after_lookup [OF Some dict])
  have origin: "map_of (request_cache self) k = Some B
                \<or> (k = request_key L syn \<and> map_of (request_cache self) k = None
                    \<and> map_option block (metagraph self) = Some B)"
    if "map_of (cache_after L self syn) k = Some B" for k B
    using that Some
    by (simp add: cache_after_lookup [OF Some dict] split: if_splits option.splits)
  show ?thesis using d keep origin by blast
qed

theorem is_request_in_cache_keeps_first_block_witness:
  "distinct (map fst (request_cache miner0))
   \<and> fst (is_request_in_cache toy_stdlib miner0 syn_bye) = Inr True
   \<and> map_of (request_cache miner0) ''eyb'' = Some 115
   \<and> map_of (cache_after toy_stdlib miner0 syn_bye) ''eyb'' = Some 115
   \<and> distinct (map fst (cache_after toy_stdlib miner0 syn_bye))"
proof -
  have h: "distinct (map fst (request_cache miner0))" by (simp add: miner0_def)
  have k: "request_key toy_stdlib syn_bye = ''eyb''"
    by (simp add: request_key_def toy_stdlib_def syn_bye_def)
  have r: "is_request_in_cache toy_stdlib miner0 syn_bye
             = (Inr True, miner0\<lparr>request_cache := [(''eyb'', 115)]\<rparr>)"
    by (simp add: is_request_in_cache_def k miner0_def mg0_def cfg0_def keys_to_remove_def)
  show ?thesis
    using is_request_in_cache_keeps_first_block [OF h, of toy_stdlib syn_bye] h
    by (simp add: r) (simp add: miner0_def)
qed

section \<open>Lookup before sweep\<close>

text \<open>
  Claim C10. An entry that is still in the cache although its block plus the span is
  already less than the current block is reported as a duplicate by the call that looks it
  up, and the sweep of that same call removes it.
\<close>

theorem expired_entry_reported_then_swept:
  assumes mg: "metagraph self = Some mg"
    and entry: "map_of (request_cache self) (request_key L syn) = Some B"
    and expired: "B + request_cache_block_span (config self) < block mg"
  shows "fst (is_request_in_cache L self syn) = Inr True
       \<and> map_of (cache_after L self syn) (request_key L syn) = None"
proof -
  have hit: "map_of (request_cache self) (request_key L syn) \<noteq> None" using entry by simp
  show ?thesis
    by (simp add: is_request_in_cache_hit [OF mg hit] sweep_expired [OF entry expired])
qed

theorem expired_entry_reported_then_swept_witness:
  "metagraph miner0 = Some mg0
   \<and> map_of (request_cache miner0) (request_key toy_stdlib syn_hello) = Some 100
   \<and> 100 + request_cache_block_span (config miner0) < block mg0
   \<and> fst (is_request_in_cache toy_stdlib miner0 syn_hello) = Inr True
   \<and> map_of (cache_after toy_stdlib miner0 syn_hello) (request_key toy_stdlib syn_hello) = None"
proof -
  have k: "request_key toy_stdlib syn_hello = ''olleh''"
    by (simp add: request_key_def toy_stdlib_def syn_hello_def)
  have h1: "metagraph miner0 = Some mg0" by (simp add: miner0_def)
  have h2: "map_of (request_cache miner0) (request_key toy_stdlib syn_hello) = Some 100"
    by (simp add: k miner0_def)
  have h3: "100 + request_cache_block_span (config miner0) < block mg0"
    by (simp add: miner0_def cfg0_def mg0_def)
  show ?thesis
    using expired_entry_reported_then_swept [OF h1 h2 h3] h1 h2 h3 by simp
qed

section \<open>The default rule chain: order of the rules\<close>

lemma list_index_None: "list_index xs y = None \<longleftrightarrow> y \<notin> set xs"
  by (induction xs) auto

lemma list_index_Some: "list_index xs y = Some i \<Longrightarrow> i < length xs \<and> xs ! i = y"
  by (induction xs arbitrary: i) (auto split: if_splits)

lemma validator_permit_rule_wf:
  assumes "metagraph self = Some mg" "length (hotkeys mg) \<le> length (validator_permit mg)"
  shows "validator_permit_rule self hk =
     Inr (if force_validator_permit (config self) then
            (case list_index (hotkeys mg) hk of
               Some uid \<Rightarrow> if \<not> validator_permit mg ! uid
                            then Some (True, ''validator permit required'') else None
             | None \<Rightarrow> Some (True, ''validator permit required, but hotkey not registered''))
          else None)"
  using assms
  by (auto simp: validator_permit_rule_def split: option.splits dest!: list_index_Some)

lemma request_period_rule_wf:
  assumes "\<forall>ts. map_of (request_timestamps self) hk = Some ts \<longrightarrow> ts \<noteq> []"
  shows "request_period_rule self hk now =
     Inr (case map_of (request_timestamps self) hk of
            Some (t0 # ts) \<Rightarrow>
              if now - t0 < of_int (min_request_period (config self) * 60)
              then Some (True, hk @ '' request frequency exceeded '' @ str_nat (length (t0 # ts))
                      @ '' requests in '' @ str_int (min_request_period (config self))
                      @ '' minutes.'')
              else None
          | _ \<Rightarrow> None)"
  using assms
  by (auto simp: request_period_rule_def Let_def split: option.splits list.splits)

lemma default_blacklist_chain:
  assumes mg: "metagraph self = Some mg"
    and permits: "length (hotkeys mg) \<le> length (validator_permit mg)"
    and stamps: "\<forall>ts. map_of (request_timestamps self) (dendrite_hotkey syn) = Some ts \<longrightarrow> ts \<noteq> []"
  shows "map_option Inr (first_match (documented_rules self mg syn now))
           = Some (default_blacklist self syn now)"
proof -
  let ?hk = "dendrite_hotkey syn"
  let ?cfg = "config self"
  consider (white) "?hk \<in> set (cfg_whitelist ?cfg)"
    | (black) "?hk \<notin> set (cfg_whitelist ?cfg)" "?hk \<in> set (cfg_blacklist ?cfg)"
    | (unreg) "?hk \<notin> set (cfg_whitelist ?cfg)" "?hk \<notin> set (cfg_blacklist ?cfg)"
        "\<not> allow_non_registered ?cfg" "?hk \<notin> set (hotkeys mg)"
    | (rest) "?hk \<notin> set (cfg_whitelist ?cfg)" "?hk \<notin> set (cfg_blacklist ?cfg)"
        "allow_non_registered ?cfg \<or> ?hk \<in> set (hotkeys mg)"
    by blast
  then show ?thesis
  proof cases
    case white
    then show ?thesis by (simp add: default_blacklist_def documented_rules_def Let_def)
  next
    case black
    then show ?thesis by (simp add: default_blacklist_def documented_rules_def Let_def)
  next
    case unreg
    then show ?thesis using mg by (simp add: default_blacklist_def documented_rules_def Let_def)
  next
    case rest
    have reg: "\<not> (\<not> allow_non_registered ?cfg \<and> ?hk \<notin> set (hotkeys mg))"
      using rest(3) by blast
    show ?thesis
    proof (cases "list_index (hotkeys mg) ?hk")
      case None
      then have "?hk \<notin> set (hotkeys mg)" by (simp add: list_index_None)
      then show ?thesis using rest reg mg None
        by (auto simp add: default_blacklist_def documented_rules_def Let_def
              validator_permit_rule_wf [OF mg permits] request_period_rule_wf [OF stamps]
            split: option.splits list.splits)
    next
      case (Some uid)
      then have "?hk \<in> set (hotkeys mg)" using list_index_None [of "hotkeys mg" ?hk] by auto
      then show ?thesis using rest reg mg Some
        by (auto simp add: default_blacklist_def documented_rules_def Let_def
              validator_permit_rule_wf [OF mg permits] request_period_rule_wf [OF stamps]
            split: option.splits list.splits)
    qed
  qed
qed

text \<open>
  Claim C5. On a state whose metagraph is present, whose permit array covers the
  registered hotkeys and whose timestamp lists are not empty, \<open>default_blacklist\<close>
  returns the decision of the first rule that matches, in the documented order: whitelist,
  blacklist, registration, validator permit (with its own reason for an unregistered
  caller), request period, and allow otherwise. A caller on both lists is allowed. A caller
  on neither list and not among the hotkeys of the metagraph is rejected as not registered
  when \<open>allow_non_registered\<close> is false, whatever the timestamps and the time are.
\<close>

theorem default_blacklist_first_match:
  "(metagraph self = Some mg \<and> length (hotkeys mg) \<le> length (validator_permit mg)
      \<and> (\<forall>ts. map_of (request_timestamps self) (dendrite_hotkey syn) = Some ts \<longrightarrow> ts \<noteq> [])
    \<longrightarrow> map_option Inr (first_match (documented_rules self mg syn now))
          = Some (default_blacklist self syn now))
   \<and> (dendrite_hotkey syn \<in> set (cfg_whitelist (config self))
      \<and> dendrite_hotkey syn \<in> set (cfg_blacklist (config self))
    \<longrightarrow> default_blacklist self syn now = Inr (False, ''whitelisted hotkey''))
   \<and> (dendrite_hotkey syn \<notin> set (cfg_whitelist (config self))
      \<and> dendrite_hotkey syn \<notin> set (cfg_blacklist (config self))
      \<and> \<not> allow_non_registered (config self)
      \<and> metagraph self = Some mg \<and> dendrite_hotkey syn \<notin> set (hotkeys mg)
    \<longrightarrow> default_blacklist self syn now = Inr (True, ''hotkey not registered''))"
proof (intro conjI impI)
  assume "metagraph self = Some mg \<and> length (hotkeys mg) \<le> length (validator_permit mg)
      \<and> (\<forall>ts. map_of (request_timestamps self) (dendrite_hotkey syn) = Some ts \<longrightarrow> ts \<noteq> [])"
  then show "map_option Inr (first_match (documented_rules self mg syn now))
          = Some (default_blacklist self syn now)"
    using default_blacklist_chain by blast
next
  assume "dendrite_hotkey syn \<in> set (cfg_whitelist (config self))
      \<and> dendrite_hotkey syn \<in> set (cfg_blacklist (config self))"
  then show "default_blacklist self syn now = Inr (False, ''whitelisted hotkey'')"
    by (simp add: default_blacklist_def)
next
  assume "dendrite_hotkey syn \<notin> set (cfg_whitelist (config self))
      \<and> dendrite_hotkey syn \<notin> set (cfg_blacklist (config self))
      \<and> \<not> allow_non_registered (config self)
      \<and> metagraph self = Some mg \<and> dendrite_hotkey syn \<notin> set (hotkeys mg)"
  then show "default_blacklist self syn now = Inr (True, ''hotkey not registered'')"
    by (simp add: default_blacklist_def)
qed


theorem default_blacklist_first_match_witness:
  "dendrite_hotkey syn_alice \<in> set (cfg_whitelist (config miner0))
   \<and> dendrite_hotkey syn_alice \<in> set (cfg_blacklist (config miner0))
   \<and> default_blacklist miner0 syn_alice 0 = Inr (False, ''whitelisted hotkey'')
   \<and> dendrite_hotkey syn_new \<notin> set (cfg_whitelist (config miner0))
   \<and> dendrite_hotkey syn_new \<notin> set (cfg_blacklist (config miner0))
   \<and> \<not> allow_non_registered (config miner0)
   \<and> metagraph miner0 = Some mg0 \<and> dendrite_hotkey syn_new \<notin> set (hotkeys mg0)
   \<and> default_blacklist miner0 syn_new 0 = Inr (True, ''hotkey not registered'')
   \<and> length (hotkeys mg0) \<le> length (validator_permit mg0)
   \<and> map_of (request_timestamps miner0) (dendrite_hotkey syn_hello_carol) = None
   \<and> first_match (documented_rules miner0 mg0 syn_hello_carol 0)
       = Some (True, ''validator permit required'')
   \<and> default_blacklist miner0 syn_hello_carol 0 = Inr (True, ''validator permit required'')"
proof -
  have a: "dendrite_hotkey syn_alice \<in> set (cfg_whitelist (config miner0))
   \<and> dendrite_hotkey syn_alice \<in> set (cfg_blacklist (config miner0))"
    by (simp add: syn_alice_def miner0_def cfg0_def)
  have n: "dendrite_hotkey syn_new \<notin> set (cfg_whitelist (config miner0))
   \<and> dendrite_hotkey syn_new \<notin> set (cfg_blacklist (config miner0))
   \<and> \<not> allow_non_registered (config miner0)
   \<and> metagraph miner0 = Some mg0 \<and> dendrite_hotkey syn_new \<notin> set (hotkeys mg0)"
    by (simp add: syn_new_def miner0_def cfg0_def mg0_def)
  have c: "metagraph miner0 = Some mg0 \<and> length (hotkeys mg0) \<le> length (validator_permit mg0)
   \<and> (\<forall>ts. map_of (request_timestamps miner0) (dendrite_hotkey syn_hello_carol) = Some ts
          \<longrightarrow> ts \<noteq> [])"
    by (simp add: syn_hello_carol_def miner0_def mg0_def)
  have f: "first_match (documented_rules miner0 mg0 syn_hello_carol 0)
       = Some (True, ''validator permit required'')"
    by (simp add: documented_rules_def syn_hello_carol_def miner0_def mg0_def cfg0_def)
  have t: "map_of (request_timestamps miner0) (dendrite_hotkey syn_hello_carol) = None"
    by (simp add: syn_hello_carol_def miner0_def)
  show ?thesis
    using default_blacklist_first_match [of miner0 mg0 syn_alice 0]
      default_blacklist_first_match [of miner0 mg0 syn_new 0]
      default_blacklist_first_match [of miner0 mg0 syn_hello_carol 0]
      a n c f t
    by simp
qed





section \<open>The wrapper never lets the override rule fail\<close>









section \<open>The admission wrapper\<close>

text \<open>
  Claim C1, evaluated on a first request. With the request cache in use and empty,
  awaiting the coroutine would report that the request is not a duplicate, yet
  \<open>Miner._predict\<close> rejects the request and leaves the cache empty: line 193 tests the
  coroutine object, not its result. The handler \<open>predict\<close> is not called.
\<close>

theorem predict_rejects_fresh_request:
  "request_cache miner_fresh = []
   \<and> use_request_cache (config miner_fresh)
   \<and> fst (await (call_is_request_in_cache toy_stdlib syn_new) miner_fresh) = Inr False
   \<and> Miner_predict toy_stdlib predict_echo miner_fresh syn_new
       = (Inl (ValueError ''Blacklisted: Request sent recently in last 10 blocks.''), miner_fresh)
   \<and> predict_echo miner_fresh syn_new = (Inr syn_new, miner_fresh)"
  by (simp add: Miner_predict_def call_is_request_in_cache_def is_request_in_cache_def
        predict_echo_def miner_fresh_def miner0_def mg0_def cfg0_def Let_def
        str_int_def str_nat.simps digit_char_def)

section \<open>The control loop\<close>

text \<open>
  Claim C2, evaluated on a chain-query failure in the second epoch. The first epoch
  completes and \<open>step\<close> becomes 1. The failing query is caught by the handler placed
  around the whole loop: the error is logged and \<open>run\<close> returns, although \<open>should_exit\<close>
  is never set and the next query would succeed. No further epoch is processed.
\<close>

theorem run_ends_on_chain_query_failure:
  "run 5 world_rpc_failure cfg0 =
     Some (Returned,
       \<lparr>tick = 7, last_epoch_block = 3000, step = 1, axon_running = True,
        logged = [Info ''Step:0 | Block'', ErrorTrace (RuntimeError ''rpc timeout'')]\<rparr>)
   \<and> (\<forall>t. \<not> should_exit world_rpc_failure t)
   \<and> get_current_block world_rpc_failure 6 = Inl (RuntimeError ''rpc timeout'')
   \<and> get_current_block world_rpc_failure 7 = Inr 7000"
proof (intro conjI)
  show "run 5 world_rpc_failure cfg0 =
     Some (Returned,
       \<lparr>tick = 7, last_epoch_block = 3000, step = 1, axon_running = True,
        logged = [Info ''Step:0 | Block'', ErrorTrace (RuntimeError ''rpc timeout'')]\<rparr>)"
    by code_simp
  show "\<forall>t. \<not> should_exit world_rpc_failure t"
    by (simp add: world_rpc_failure_def world_steady_def)
  show "get_current_block world_rpc_failure 6 = Inl (RuntimeError ''rpc timeout'')"
    by (simp add: world_rpc_failure_def)
  show "get_current_block world_rpc_failure 7 = Inr 7000"
    by (simp add: world_rpc_failure_def)
qed

text \<open>
  Claim C3, evaluated on both cancellation paths. When \<open>should_exit\<close> is set during the
  wait, the loop finishes the epoch and \<open>run\<close> returns without error, with the axon
  still running. When the wait is interrupted, the axon is stopped and \<open>exit()\<close> ends
  the call.
\<close>

theorem run_leaves_axon_running_on_flag:
  "run 5 world_flag cfg0 =
     Some (Returned,
       \<lparr>tick = 8, last_epoch_block = 1000, step = 1, axon_running = True,
        logged = [Info ''Step:0 | Block'']\<rparr>)
   \<and> run 5 world_interrupt cfg0 =
     Some (Propagated SystemExit,
       \<lparr>tick = 4, last_epoch_block = 1000, step = 0, axon_running = False,
        logged = [Success ''Miner killed by keyboard interrupt.'']\<rparr>)"
  by code_simp

end
